theory Spec2Isabelle
  imports Main
begin

section \<open>Exceptions\<close>

text \<open>
  The exceptions of \<^verbatim>\<open>custom_exceptions\<close> that the modelled functions raise,
  and the built-in Python exceptions (\<^verbatim>\<open>ValueError\<close>, \<^verbatim>\<open>KeyError\<close>,
  \<^verbatim>\<open>TypeError\<close>, \<^verbatim>\<open>AttributeError\<close>, \<^verbatim>\<open>UnboundLocalError\<close>) that the same
  functions let escape. A function that mutates its arguments returns the state it
  leaves behind together with either the exception or the returned value, so that what
  a failing call did to the state can be stated.
\<close>

datatype error =
    InvalidCharacterClassError
  | CharacterDeadError
  | CombatNotActiveError
  | InventoryFullError
  | ItemNotFoundError
  | InsufficientResourcesError
  | InvalidItemTypeError
  | ValueError
  | KeyError
  | TypeError
  | AttributeError
  | UnboundLocalError

section \<open>Data model\<close>

text \<open>
  Characters and enemies are Python dictionaries used as structs. The keys that both have
  (\<^verbatim>\<open>name\<close>, \<^verbatim>\<open>health\<close>, \<^verbatim>\<open>max_health\<close>, \<^verbatim>\<open>strength\<close>, \<^verbatim>\<open>magic\<close>) form the
  record \<open>combatant\<close>, which \<open>character\<close> and \<open>enemy\<close> extend. The record fixes the
  keys and the types that \<^verbatim>\<open>validate_character_data\<close> requires: the numeric keys hold
  Python's unbounded integers and the three list keys hold lists.
  The key \<^verbatim>\<open>class\<close> is the field \<open>char_class\<close>. Keys that \<^verbatim>\<open>apply_stat_effect\<close>
  creates for a stat name the character does not have yet live in the map \<open>extra\<close>.

  The keys \<^verbatim>\<open>equipped_weapon\<close> and \<^verbatim>\<open>equipped_armor\<close> are optional:
  \<^verbatim>\<open>create_character\<close> does not create them, the equip functions store an item id
  in them and the unequip functions store \<^verbatim>\<open>None\<close>. Since \<^verbatim>\<open>apply_stat_effect\<close>
  creates a missing key as the integer 0 before it adds to it, an effect that names a
  missing slot leaves an integer in the slot, and the equip and unequip functions then
  move that integer into the inventory like an item id. So a slot is missing, \<^verbatim>\<open>None\<close>
  or holds a reference, and a reference (in a slot or in the inventory) is an item id
  or an integer.
\<close>

datatype item_ref = ItemId string | ItemNum int

datatype slot = Missing | PyNone | Holds item_ref

record combatant =
  name :: string
  health :: int
  max_health :: int
  strength :: int
  magic :: int

record character = combatant +
  char_class :: string
  level :: int
  experience :: int
  gold :: int
  inventory :: "item_ref list"
  active_quests :: "string list"
  completed_quests :: "string list"
  equipped_weapon :: slot
  equipped_armor :: slot
  extra :: "string \<rightharpoonup> int"

section \<open>character\_manager.py\<close>

subsection \<open>create\_character\<close>

text \<open>The table \<^verbatim>\<open>valid_classes\<close>: class name to (health, strength, magic).\<close>

definition valid_classes :: "(string \<times> (int \<times> int \<times> int)) list" where
  "valid_classes =
     [(''Warrior'', (120, 15, 5)),
      (''Mage'', (80, 8, 20)),
      (''Rogue'', (90, 12, 10)),
      (''Cleric'', (100, 10, 15))]"

definition create_character :: "string \<Rightarrow> string \<Rightarrow> error + character" where
  "create_character nm character_class =
     (case map_of valid_classes character_class of
        None \<Rightarrow> Inl InvalidCharacterClassError
      | Some (h, s, m) \<Rightarrow>
          Inr \<lparr>name = nm, health = h, max_health = h, strength = s, magic = m,
               char_class = character_class, level = 1, experience = 0, gold = 100,
               inventory = [], active_quests = [], completed_quests = [],
               equipped_weapon = Missing, equipped_armor = Missing, extra = Map.empty\<rparr>)"

subsection \<open>gain\_experience\<close>

text \<open>
  One pass through the body of the \<^verbatim>\<open>while\<close> loop: the threshold is computed from the
  level before it is incremented, and health is set to the raised \<^verbatim>\<open>max_health\<close>.
\<close>

definition level_up :: "character \<Rightarrow> character" where
  "level_up c =
     c\<lparr>experience := experience c - level c * 100,
       level := level c + 1,
       max_health := max_health c + 10,
       strength := strength c + 2,
       magic := magic c + 2,
       health := max_health c + 10\<rparr>"

text \<open>The loop, with the flag \<^verbatim>\<open>leveled_up\<close> as its second component.\<close>

function level_up_loop :: "character \<Rightarrow> bool \<Rightarrow> character \<times> bool" where
  "level_up_loop c leveled_up =
     (if experience c \<ge> level c * 100 then level_up_loop (level_up c) True
      else (c, leveled_up))"
  by pat_completeness auto
termination
  by (relation "measures [\<lambda>(c, b). nat (1 - level c), \<lambda>(c, b). nat (experience c)]")
     (auto simp: level_up_def)

declare level_up_loop.simps [simp del]

definition gain_experience :: "character \<Rightarrow> int \<Rightarrow> character \<times> (error + bool)" where
  "gain_experience c xp_amount =
     (if health c \<le> 0 then (c, Inl CharacterDeadError)
      else
        (case level_up_loop (c\<lparr>experience := experience c + xp_amount\<rparr>) False of
           (c', leveled_up) \<Rightarrow> (c', Inr leveled_up)))"

subsection \<open>heal\_character, is\_character\_dead, revive\_character\<close>

definition heal_character :: "character \<Rightarrow> int \<Rightarrow> character \<times> (error + int)" where
  "heal_character c amount =
     (if amount < 0 then (c, Inl ValueError)
      else
        (let old_health = health c;
             c' = c\<lparr>health := min (health c + amount) (max_health c)\<rparr>
         in (c', Inr (health c' - old_health))))"

definition is_character_dead :: "character \<Rightarrow> bool" where
  "is_character_dead c = (health c \<le> 0)"

definition revive_character :: "character \<Rightarrow> character \<times> bool" where
  "revive_character c =
     (if \<not> is_character_dead c then (c, False)
      else (c\<lparr>health := max_health c div 2\<rparr>, True))"

section \<open>inventory\_system.py\<close>

subsection \<open>Item data\<close>

text \<open>
  Item data is a dictionary supplied by the caller: either one item's own dictionary
  (keys \<^verbatim>\<open>item_id\<close>, \<^verbatim>\<open>name\<close>, \<^verbatim>\<open>type\<close>, \<^verbatim>\<open>effect\<close>, \<^verbatim>\<open>cost\<close>,
  \<^verbatim>\<open>description\<close>) or the table of all items, from item id to item dictionary. The
  code tells the two apart at run time by looking at the keys, so the model keeps the
  dictionary untyped: a dictionary is an association list from keys to Python values.
\<close>

datatype pyval = PInt int | PStr string | PDict "(string \<times> pyval) list"

type_synonym pydict = "(string \<times> pyval) list"

text \<open>\<^verbatim>\<open>key in d\<close> for a dictionary.\<close>

definition has_key :: "pydict \<Rightarrow> string \<Rightarrow> bool" where
  "has_key d k = (map_of d k \<noteq> None)"

text \<open>\<^verbatim>\<open>isinstance(v, dict)\<close>.\<close>

fun is_dict :: "pyval \<Rightarrow> bool" where
  "is_dict (PDict d) = True"
| "is_dict v = False"

definition MAX_INVENTORY_SIZE :: nat where
  "MAX_INVENTORY_SIZE = 20"

text \<open>
  \<^verbatim>\<open>_ensure_inventory\<close> installs an empty list when the key \<^verbatim>\<open>inventory\<close> is missing
  or \<^verbatim>\<open>None\<close>. In the record the key is always a list, so the helper changes nothing.
\<close>

definition ensure_inventory :: "character \<Rightarrow> character" where
  "ensure_inventory c = c"

subsection \<open>Inventory management\<close>

definition add_item_to_inventory :: "character \<Rightarrow> string \<Rightarrow> character \<times> (error + bool)" where
  "add_item_to_inventory c0 item_id =
     (let c = ensure_inventory c0 in
      if length (inventory c) \<ge> MAX_INVENTORY_SIZE then (c, Inl InventoryFullError)
      else (c\<lparr>inventory := inventory c @ [ItemId item_id]\<rparr>, Inr True))"

text \<open>\<^verbatim>\<open>list.remove\<close> deletes the first occurrence, as \<open>remove1\<close> does.\<close>

definition remove_item_from_inventory :: "character \<Rightarrow> string \<Rightarrow> character \<times> (error + bool)" where
  "remove_item_from_inventory c0 item_id =
     (let c = ensure_inventory c0 in
      if ItemId item_id \<notin> set (inventory c) then (c, Inl ItemNotFoundError)
      else (c\<lparr>inventory := remove1 (ItemId item_id) (inventory c)\<rparr>, Inr True))"

definition has_item :: "character \<Rightarrow> string \<Rightarrow> bool" where
  "has_item c item_id = (ItemId item_id \<in> set (inventory c))"

definition count_item :: "character \<Rightarrow> string \<Rightarrow> nat" where
  "count_item c item_id = count_list (inventory c) (ItemId item_id)"

definition get_inventory_space_remaining :: "character \<Rightarrow> int" where
  "get_inventory_space_remaining c = int MAX_INVENTORY_SIZE - int (length (inventory c))"

subsection \<open>Effect strings\<close>

text \<open>
  \<^verbatim>\<open>int(value)\<close> on a string: surrounding whitespace (tab, line feed, vertical tab,
  form feed, carriage return, space) is dropped, one sign is allowed,
  and the rest is decimal digits, where a single underscore may stand between two
  digits. Anything else is a \<^verbatim>\<open>ValueError\<close>. Strings are byte strings here, so only
  ASCII digits and ASCII whitespace are covered.
\<close>

definition py_isspace :: "char \<Rightarrow> bool" where
  "py_isspace ch =
     (ch \<in> set [CHR 0x09, CHR 0x0A, CHR 0x0B, CHR 0x0C, CHR 0x0D, CHR 0x20])"

definition py_strip :: "string \<Rightarrow> string" where
  "py_strip s = rev (dropWhile py_isspace (rev (dropWhile py_isspace s)))"

definition digit_val :: "char \<Rightarrow> nat option" where
  "digit_val ch =
     map_of [(CHR ''0'', 0), (CHR ''1'', 1), (CHR ''2'', 2), (CHR ''3'', 3), (CHR ''4'', 4),
             (CHR ''5'', 5), (CHR ''6'', 6), (CHR ''7'', 7), (CHR ''8'', 8), (CHR ''9'', 9)] ch"

text \<open>The digits after the first one, with the value read so far.\<close>

fun digits_value :: "string \<Rightarrow> nat \<Rightarrow> nat option" where
  "digits_value [] acc = Some acc"
| "digits_value [ch] acc =
     (case digit_val ch of None \<Rightarrow> None | Some v \<Rightarrow> Some (acc * 10 + v))"
| "digits_value (ch # d # rest) acc =
     (if ch = CHR ''_'' then
        (case digit_val d of None \<Rightarrow> None | Some v \<Rightarrow> digits_value rest (acc * 10 + v))
      else
        (case digit_val ch of None \<Rightarrow> None | Some v \<Rightarrow> digits_value (d # rest) (acc * 10 + v)))"

definition py_decimal :: "string \<Rightarrow> nat option" where
  "py_decimal s =
     (case s of
        [] \<Rightarrow> None
      | ch # rest \<Rightarrow> (case digit_val ch of None \<Rightarrow> None | Some v \<Rightarrow> digits_value rest v))"

definition py_int :: "string \<Rightarrow> error + int" where
  "py_int s =
     (let t = py_strip s;
          r = (case t of
                 [] \<Rightarrow> None
               | ch # rest \<Rightarrow>
                   if ch = CHR ''-'' then map_option (\<lambda>n. - int n) (py_decimal rest)
                   else if ch = CHR ''+'' then map_option int (py_decimal rest)
                   else map_option int (py_decimal t))
      in case r of None \<Rightarrow> Inl ValueError | Some n \<Rightarrow> Inr n)"

text \<open>
  \<^verbatim>\<open>stat, value = effect_string.split(":", 1)\<close>: the split is at the first colon, and
  the unpacking raises \<^verbatim>\<open>ValueError\<close> when there is none. A value that is not a
  string has no \<^verbatim>\<open>split\<close>.
\<close>

definition parse_item_effect :: "pyval \<Rightarrow> error + (string \<times> int)" where
  "parse_item_effect effect_string =
     (case effect_string of
        PStr s \<Rightarrow>
          (if CHR '':'' \<notin> set s then Inl ValueError
           else
             (let stat = takeWhile (\<lambda>ch. ch \<noteq> CHR '':'') s;
                  val = tl (dropWhile (\<lambda>ch. ch \<noteq> CHR '':'') s)
              in case py_int val of Inl e \<Rightarrow> Inl e | Inr n \<Rightarrow> Inr (stat, n)))
      | _ \<Rightarrow> Inl AttributeError)"

text \<open>
  \<^verbatim>\<open>character[stat_name] += value\<close>, after the key has been created with 0 when it is
  missing; only the stat \<^verbatim>\<open>health\<close> is compared with \<^verbatim>\<open>max_health\<close> afterwards.
  Adding an integer to a key that holds a string, a list or \<^verbatim>\<open>None\<close> is a
  \<^verbatim>\<open>TypeError\<close> that leaves the character as it was.
\<close>

definition non_numeric_keys :: "string list" where
  "non_numeric_keys =
     [''name'', ''class'', ''inventory'', ''active_quests'', ''completed_quests'']"

text \<open>
  The same statement for a slot key: a missing key is created with 0 and then holds
  the integer, an integer in the slot is added to, and a slot that holds \<^verbatim>\<open>None\<close> or
  an item id raises \<^verbatim>\<open>TypeError\<close> (the result \<open>None\<close> here).
\<close>

fun slot_add :: "slot \<Rightarrow> int \<Rightarrow> slot option" where
  "slot_add Missing val = Some (Holds (ItemNum (0 + val)))"
| "slot_add (Holds (ItemNum n)) val = Some (Holds (ItemNum (n + val)))"
| "slot_add (Holds (ItemId s)) val = None"
| "slot_add PyNone val = None"

definition apply_stat_effect :: "character \<Rightarrow> string \<Rightarrow> int \<Rightarrow> character \<times> (error + unit)" where
  "apply_stat_effect c stat_name val =
     (if stat_name = ''health'' then
        (let c1 = c\<lparr>health := health c + val\<rparr>
         in ((if health c1 > max_health c1 then c1\<lparr>health := max_health c1\<rparr> else c1), Inr ()))
      else if stat_name = ''max_health'' then (c\<lparr>max_health := max_health c + val\<rparr>, Inr ())
      else if stat_name = ''strength'' then (c\<lparr>strength := strength c + val\<rparr>, Inr ())
      else if stat_name = ''magic'' then (c\<lparr>magic := magic c + val\<rparr>, Inr ())
      else if stat_name = ''level'' then (c\<lparr>level := level c + val\<rparr>, Inr ())
      else if stat_name = ''experience'' then (c\<lparr>experience := experience c + val\<rparr>, Inr ())
      else if stat_name = ''gold'' then (c\<lparr>gold := gold c + val\<rparr>, Inr ())
      else if stat_name \<in> set non_numeric_keys then (c, Inl TypeError)
      else if stat_name = ''equipped_weapon'' then
        (case slot_add (equipped_weapon c) val of
           None \<Rightarrow> (c, Inl TypeError)
         | Some s \<Rightarrow> (c\<lparr>equipped_weapon := s\<rparr>, Inr ()))
      else if stat_name = ''equipped_armor'' then
        (case slot_add (equipped_armor c) val of
           None \<Rightarrow> (c, Inl TypeError)
         | Some s \<Rightarrow> (c\<lparr>equipped_armor := s\<rparr>, Inr ()))
      else
        (c\<lparr>extra := (extra c)(stat_name \<mapsto>
             (case extra c stat_name of None \<Rightarrow> 0 | Some v \<Rightarrow> v) + val)\<rparr>, Inr ()))"

subsection \<open>Item usage and equipment\<close>

text \<open>
  \<^verbatim>\<open>_resolve_item_info\<close>: a dictionary with the key \<^verbatim>\<open>type\<close> is taken to be the
  item's own dictionary; any other is indexed with the item id.
\<close>

definition resolve_item_info :: "string \<Rightarrow> pydict \<Rightarrow> error + pyval" where
  "resolve_item_info item_id item_data =
     (if has_key item_data ''type'' then Inr (PDict item_data)
      else (case map_of item_data item_id of None \<Rightarrow> Inl KeyError | Some v \<Rightarrow> Inr v))"

text \<open>\<^verbatim>\<open>info.get('name', item_id)\<close>, the name shown in the returned messages.\<close>

definition item_label :: "pydict \<Rightarrow> string \<Rightarrow> pyval" where
  "item_label info item_id = (case map_of info ''name'' of None \<Rightarrow> PStr item_id | Some v \<Rightarrow> v)"

text \<open>
  The three lines that recur in the equipment functions,
  \<^verbatim>\<open>if "effect" in info: stat, val = parse_item_effect(info["effect"]);
  apply_stat_effect(character, stat, val)\<close>, with \<^verbatim>\<open>-val\<close> when an effect is taken
  back. The result is the pair \<^verbatim>\<open>(stat, val)\<close> the lines bind, if they ran.
\<close>

definition apply_item_effect ::
  "character \<Rightarrow> pydict \<Rightarrow> bool \<Rightarrow> character \<times> (error + (string \<times> int) option)" where
  "apply_item_effect c info negated =
     (case map_of info ''effect'' of
        None \<Rightarrow> (c, Inr None)
      | Some eff \<Rightarrow>
          (case parse_item_effect eff of
             Inl e \<Rightarrow> (c, Inl e)
           | Inr (stat, val) \<Rightarrow>
               (case apply_stat_effect c stat (if negated then - val else val) of
                  (c1, Inl e) \<Rightarrow> (c1, Inl e)
                | (c1, Inr u) \<Rightarrow> (c1, Inr (Some (stat, val))))))"

text \<open>
  Reading a slot with \<^verbatim>\<open>character.get(...)\<close> gives \<^verbatim>\<open>None\<close> for a missing key
  and for the value \<^verbatim>\<open>None\<close>. What was read is then tested for truth (the empty
  string and the integer 0 are false) and looked up in \<^verbatim>\<open>item_data\<close>, whose keys are
  strings, so that an integer is never found.
\<close>

fun slot_get :: "slot \<Rightarrow> item_ref option" where
  "slot_get Missing = None"
| "slot_get PyNone = None"
| "slot_get (Holds r) = Some r"

fun truthy :: "item_ref \<Rightarrow> bool" where
  "truthy (ItemId s) = (s \<noteq> [])"
| "truthy (ItemNum n) = (n \<noteq> 0)"

fun lookup_ref :: "pydict \<Rightarrow> item_ref \<Rightarrow> pyval option" where
  "lookup_ref d (ItemId s) = map_of d s"
| "lookup_ref d (ItemNum n) = None"

text \<open>
  The block of \<^verbatim>\<open>equip_weapon\<close> and \<^verbatim>\<open>equip_armor\<close> that empties the slot first;
  \<open>old_slot\<close> is the slot as it is when the block starts. The slot counts as occupied
  when its value is truthy. The old item's data is looked for in \<^verbatim>\<open>item_data\<close> under
  the old item's id, and is used only when the entry is a dictionary; without it no
  effect is taken back (\<^verbatim>\<open>old_info = None\<close> is the empty dictionary here: the test
  \<^verbatim>\<open>old_info and "effect" in old_info\<close> fails for both). The old item is appended to
  the inventory in either case.
\<close>

definition return_old_item ::
  "character \<Rightarrow> slot \<Rightarrow> pydict \<Rightarrow> character \<times> (error + (string \<times> int) option)" where
  "return_old_item c old_slot item_data =
     (case slot_get old_slot of
        None \<Rightarrow> (c, Inr None)
      | Some oid \<Rightarrow>
          if \<not> truthy oid then (c, Inr None)
          else
            (let old_info = (case lookup_ref item_data oid of Some (PDict d) \<Rightarrow> d | _ \<Rightarrow> [])
             in case apply_item_effect c old_info True of
                  (c1, Inl e) \<Rightarrow> (c1, Inl e)
                | (c1, Inr bound) \<Rightarrow> (c1\<lparr>inventory := inventory c1 @ [oid]\<rparr>, Inr bound)))"

text \<open>
  \<^verbatim>\<open>use_item\<close> returns the message
  \<^verbatim>\<open>f"Used {info.get('name', item_id)}, {stat_name} increased by {value}"\<close>; the model
  returns the three values the message is built from.
\<close>

definition use_item ::
  "character \<Rightarrow> string \<Rightarrow> pydict \<Rightarrow> character \<times> (error + (pyval \<times> string \<times> int))" where
  "use_item c0 item_id item_data =
     (let c = ensure_inventory c0 in
      if ItemId item_id \<notin> set (inventory c) then (c, Inl ItemNotFoundError)
      else
        (case resolve_item_info item_id item_data of
           Inl e \<Rightarrow> (c, Inl e)
         | Inr (PDict info) \<Rightarrow>
             if map_of info ''type'' \<noteq> Some (PStr ''consumable'') then (c, Inl InvalidItemTypeError)
             else
               (case map_of info ''effect'' of
                  None \<Rightarrow> (c, Inl KeyError)
                | Some eff \<Rightarrow>
                    (case parse_item_effect eff of
                       Inl e \<Rightarrow> (c, Inl e)
                     | Inr (stat_name, val) \<Rightarrow>
                         (case apply_stat_effect c stat_name val of
                            (c1, Inl e) \<Rightarrow> (c1, Inl e)
                          | (c1, Inr u) \<Rightarrow>
                              (c1\<lparr>inventory := remove1 (ItemId item_id) (inventory c1)\<rparr>,
                               Inr (item_label info item_id, stat_name, val)))))
         | Inr v \<Rightarrow> (c, Inl AttributeError)))"

text \<open>
  \<^verbatim>\<open>equip_weapon\<close> returns \<^verbatim>\<open>f"{character['name']} has equipped {info.get('name', item_id)}"\<close>;
  the model returns the two values of the message.
\<close>

definition equip_weapon ::
  "character \<Rightarrow> string \<Rightarrow> pydict \<Rightarrow> character \<times> (error + (string \<times> pyval))" where
  "equip_weapon c0 item_id item_data =
     (let c = ensure_inventory c0 in
      if ItemId item_id \<notin> set (inventory c) then (c, Inl ItemNotFoundError)
      else
        (case resolve_item_info item_id item_data of
           Inl e \<Rightarrow> (c, Inl e)
         | Inr (PDict info) \<Rightarrow>
             if map_of info ''type'' \<noteq> Some (PStr ''weapon'') then (c, Inl InvalidItemTypeError)
             else
               (case return_old_item c (equipped_weapon c) item_data of
                  (c1, Inl e) \<Rightarrow> (c1, Inl e)
                | (c1, Inr old_bound) \<Rightarrow>
                    (case apply_item_effect c1 info False of
                       (c2, Inl e) \<Rightarrow> (c2, Inl e)
                     | (c2, Inr new_bound) \<Rightarrow>
                         (c2\<lparr>equipped_weapon := Holds (ItemId item_id),
                             inventory := remove1 (ItemId item_id) (inventory c2)\<rparr>,
                          Inr (name c2, item_label info item_id))))
         | Inr v \<Rightarrow> (c, Inl AttributeError)))"

text \<open>
  \<^verbatim>\<open>equip_armor\<close> returns \<^verbatim>\<open>f"Equipped {info.get('name', item_id)}, {stat} increased by {val}"\<close>,
  where \<^verbatim>\<open>stat\<close> and \<^verbatim>\<open>val\<close> are whatever the last parsed effect bound: the new
  armor's, else the old armor's, else nothing, and then building the message raises
  \<^verbatim>\<open>UnboundLocalError\<close> after the armor has been equipped.
\<close>

definition equip_armor ::
  "character \<Rightarrow> string \<Rightarrow> pydict \<Rightarrow> character \<times> (error + (pyval \<times> string \<times> int))" where
  "equip_armor c0 item_id item_data =
     (let c = ensure_inventory c0 in
      if ItemId item_id \<notin> set (inventory c) then (c, Inl ItemNotFoundError)
      else
        (case resolve_item_info item_id item_data of
           Inl e \<Rightarrow> (c, Inl e)
         | Inr (PDict info) \<Rightarrow>
             if map_of info ''type'' \<noteq> Some (PStr ''armor'') then (c, Inl InvalidItemTypeError)
             else
               (case return_old_item c (equipped_armor c) item_data of
                  (c1, Inl e) \<Rightarrow> (c1, Inl e)
                | (c1, Inr old_bound) \<Rightarrow>
                    (case apply_item_effect c1 info False of
                       (c2, Inl e) \<Rightarrow> (c2, Inl e)
                     | (c2, Inr new_bound) \<Rightarrow>
                         (let c3 = c2\<lparr>equipped_armor := Holds (ItemId item_id),
                                       inventory := remove1 (ItemId item_id) (inventory c2)\<rparr>
                          in case (case new_bound of None \<Rightarrow> old_bound | Some b \<Rightarrow> Some b) of
                               None \<Rightarrow> (c3, Inl UnboundLocalError)
                             | Some (stat, val) \<Rightarrow> (c3, Inr (item_label info item_id, stat, val)))))
         | Inr v \<Rightarrow> (c, Inl AttributeError)))"

text \<open>
  The unequip functions return what they took off the slot, or \<^verbatim>\<open>None\<close> when the
  slot's value is not truthy. The item's data is \<^verbatim>\<open>item_data[equipped]\<close> when that
  is a dictionary, and \<^verbatim>\<open>item_data\<close> itself otherwise. The slot is left holding
  \<^verbatim>\<open>None\<close>.
\<close>

definition unequip_weapon :: "character \<Rightarrow> pydict \<Rightarrow> character \<times> (error + item_ref option)" where
  "unequip_weapon c0 item_data =
     (let c = ensure_inventory c0 in
      case slot_get (equipped_weapon c) of
        None \<Rightarrow> (c, Inr None)
      | Some equipped \<Rightarrow>
          if \<not> truthy equipped then (c, Inr None)
          else if get_inventory_space_remaining c \<le> 0 then (c, Inl InventoryFullError)
          else
            (let info = (case lookup_ref item_data equipped of Some (PDict d) \<Rightarrow> d | _ \<Rightarrow> item_data)
             in case apply_item_effect c info True of
                  (c1, Inl e) \<Rightarrow> (c1, Inl e)
                | (c1, Inr bound) \<Rightarrow>
                    (c1\<lparr>inventory := inventory c1 @ [equipped], equipped_weapon := PyNone\<rparr>,
                     Inr (Some equipped))))"

definition unequip_armor :: "character \<Rightarrow> pydict \<Rightarrow> character \<times> (error + item_ref option)" where
  "unequip_armor c0 item_data =
     (let c = ensure_inventory c0 in
      case slot_get (equipped_armor c) of
        None \<Rightarrow> (c, Inr None)
      | Some equipped \<Rightarrow>
          if \<not> truthy equipped then (c, Inr None)
          else if get_inventory_space_remaining c \<le> 0 then (c, Inl InventoryFullError)
          else
            (let info = (case lookup_ref item_data equipped of Some (PDict d) \<Rightarrow> d | _ \<Rightarrow> item_data)
             in case apply_item_effect c info True of
                  (c1, Inl e) \<Rightarrow> (c1, Inl e)
                | (c1, Inr bound) \<Rightarrow>
                    (c1\<lparr>inventory := inventory c1 @ [equipped], equipped_armor := PyNone\<rparr>,
                     Inr (Some equipped))))"

subsection \<open>Shop\<close>

text \<open>
  \<^verbatim>\<open>info["cost"]\<close> and its first use in arithmetic: indexing something that is not a
  dictionary, and comparing or dividing a cost that is not an integer, are both a
  \<^verbatim>\<open>TypeError\<close>; both functions do this before they change anything.
\<close>

definition item_cost :: "pyval \<Rightarrow> error + int" where
  "item_cost info =
     (case info of
        PDict d \<Rightarrow>
          (case map_of d ''cost'' of
             None \<Rightarrow> Inl KeyError
           | Some (PInt n) \<Rightarrow> Inr n
           | Some v \<Rightarrow> Inl TypeError)
      | _ \<Rightarrow> Inl TypeError)"

definition purchase_item :: "character \<Rightarrow> string \<Rightarrow> pydict \<Rightarrow> character \<times> (error + bool)" where
  "purchase_item c0 item_id item_data =
     (let c = ensure_inventory c0 in
      case resolve_item_info item_id item_data of
        Inl e \<Rightarrow> (c, Inl e)
      | Inr info \<Rightarrow>
          (case item_cost info of
             Inl e \<Rightarrow> (c, Inl e)
           | Inr cost \<Rightarrow>
               if gold c < cost then (c, Inl InsufficientResourcesError)
               else if length (inventory c) \<ge> MAX_INVENTORY_SIZE then (c, Inl InventoryFullError)
               else (c\<lparr>gold := gold c - cost, inventory := inventory c @ [ItemId item_id]\<rparr>,
                     Inr True)))"

definition sell_item :: "character \<Rightarrow> string \<Rightarrow> pydict \<Rightarrow> character \<times> (error + int)" where
  "sell_item c0 item_id item_data =
     (let c = ensure_inventory c0 in
      if ItemId item_id \<notin> set (inventory c) then (c, Inl ItemNotFoundError)
      else
        (case resolve_item_info item_id item_data of
           Inl e \<Rightarrow> (c, Inl e)
         | Inr info \<Rightarrow>
             (case item_cost info of
                Inl e \<Rightarrow> (c, Inl e)
              | Inr cost \<Rightarrow>
                  (let gold_gained = cost div 2
                   in (c\<lparr>inventory := remove1 (ItemId item_id) (inventory c),
                         gold := gold c + gold_gained\<rparr>, Inr gold_gained)))))"

section \<open>combat\_system.py\<close>

record enemy = combatant +
  enemy_type :: string
  xp_reward :: int
  gold_reward :: int

text \<open>
  The dictionary \<^verbatim>\<open>battle_result\<close>; \<^verbatim>\<open>winner\<close> is \<^verbatim>\<open>None\<close>, \<^verbatim>\<open>"player"\<close>,
  \<^verbatim>\<open>"enemy"\<close> or \<^verbatim>\<open>"none"\<close>.
\<close>

record battle_result =
  winner :: "string option"
  xp_gained :: int
  gold_gained :: int

text \<open>
  The object \<^verbatim>\<open>SimpleBattle\<close>. It holds references to the caller's two dictionaries
  and mutates them in place; in the model the battle owns both, and the caller reads
  them back from it.
\<close>

record battle =
  character :: character
  enemy :: enemy
  combat_active :: bool
  turn_counter :: int
  battle_result :: "battle_result option"

definition SimpleBattle :: "character \<Rightarrow> enemy \<Rightarrow> battle" where
  "SimpleBattle c e =
     \<lparr>character = c, enemy = e, combat_active = False, turn_counter = 0, battle_result = None\<rparr>"

definition start_battle :: "battle \<Rightarrow> battle \<times> (error + battle_result)" where
  "start_battle b =
     (if is_character_dead (character b) then (b, Inl CharacterDeadError)
      else
        (let r = \<lparr>winner = None, xp_gained = 0, gold_gained = 0\<rparr>
         in (b\<lparr>combat_active := True, turn_counter := 1, battle_result := Some r\<rparr>, Inr r)))"

definition start :: "battle \<Rightarrow> battle \<times> (error + battle_result)" where
  "start b = start_battle b"

definition calculate_damage :: "'a combatant_scheme \<Rightarrow> 'b combatant_scheme \<Rightarrow> int" where
  "calculate_damage attacker defender =
     (let damage_amount = strength attacker - (strength defender div 4)
      in if damage_amount < 1 then 1 else damage_amount)"

definition check_battle_end :: "battle \<Rightarrow> battle \<times> string option" where
  "check_battle_end b =
     (if health (character b) \<le> 0 then (b\<lparr>combat_active := False\<rparr>, Some ''enemy'')
      else if health (enemy b) \<le> 0 then (b\<lparr>combat_active := False\<rparr>, Some ''player'')
      else (b, None))"

text \<open>
  \<^verbatim>\<open>apply_damage(target, damage)\<close> is only ever called with the battle's own
  character or enemy as the target, which the model names.
\<close>

datatype target = TargetCharacter | TargetEnemy

definition damaged :: "'a combatant_scheme \<Rightarrow> int \<Rightarrow> 'a combatant_scheme" where
  "damaged t damage =
     (let t1 = t\<lparr>health := health t - damage\<rparr>
      in if health t1 < 0 then t1\<lparr>health := 0\<rparr> else t1)"

definition apply_damage :: "battle \<Rightarrow> target \<Rightarrow> int \<Rightarrow> battle" where
  "apply_damage b tgt damage =
     (let b1 = (case tgt of
                  TargetCharacter \<Rightarrow> b\<lparr>character := damaged (character b) damage\<rparr>
                | TargetEnemy \<Rightarrow> b\<lparr>enemy := damaged (enemy b) damage\<rparr>)
      in case check_battle_end b1 of
           (b2, None) \<Rightarrow> b2
         | (b2, Some w) \<Rightarrow> b2\<lparr>combat_active := False\<rparr>)"

text \<open>
  \<^verbatim>\<open>random.random() < 0.5\<close> is an input of the model: the flag \<open>roll\<close> says how the
  comparison came out.
\<close>

definition attempt_escape :: "battle \<Rightarrow> bool \<Rightarrow> battle \<times> (error + bool)" where
  "attempt_escape b roll =
     (if \<not> combat_active b then (b, Inl CombatNotActiveError)
      else ((if roll then b\<lparr>combat_active := False\<rparr> else b), Inr roll))"

subsection \<open>Special abilities\<close>

text \<open>
  Each ability returns a message; the model returns the mutated dictionaries and the
  number the message reports.
\<close>

datatype ability_message =
    PowerStrike int
  | Fireball int
  | CriticalStrike int
  | Attacked int
  | Healed int
  | NoAbility

definition warrior_power_strike :: "character \<Rightarrow> enemy \<Rightarrow> enemy \<times> ability_message" where
  "warrior_power_strike c e =
     (let damage = strength c * 2 in (damaged e damage, PowerStrike damage))"

definition mage_fireball :: "character \<Rightarrow> enemy \<Rightarrow> enemy \<times> ability_message" where
  "mage_fireball c e =
     (let damage = magic c * 2 in (damaged e damage, Fireball damage))"

definition rogue_critical_strike :: "character \<Rightarrow> enemy \<Rightarrow> bool \<Rightarrow> enemy \<times> ability_message" where
  "rogue_critical_strike c e crit =
     (if crit then (let damage = strength c * 3 in (damaged e damage, CriticalStrike damage))
      else (let damage = strength c in (damaged e damage, Attacked damage)))"

definition cleric_heal :: "character \<Rightarrow> character \<times> ability_message" where
  "cleric_heal c =
     (let heal_amount = 30;
          before = health c;
          c' = c\<lparr>health := min (health c + heal_amount) (max_health c)\<rparr>
      in (c', Healed (health c' - before)))"

definition use_special_ability ::
  "character \<Rightarrow> enemy \<Rightarrow> bool \<Rightarrow> character \<times> enemy \<times> ability_message" where
  "use_special_ability c e crit =
     (let cls = char_class c in
      if cls = ''Warrior'' then (case warrior_power_strike c e of (e', m) \<Rightarrow> (c, e', m))
      else if cls = ''Mage'' then (case mage_fireball c e of (e', m) \<Rightarrow> (c, e', m))
      else if cls = ''Rogue'' then (case rogue_critical_strike c e crit of (e', m) \<Rightarrow> (c, e', m))
      else if cls = ''Cleric'' then (case cleric_heal c of (c', m) \<Rightarrow> (c', e, m))
      else (c, e, NoAbility))"

definition get_victory_rewards :: "enemy \<Rightarrow> int \<times> int" where
  "get_victory_rewards e = (xp_reward e, gold_reward e)"

subsection \<open>Turns\<close>

text \<open>
  The end of \<^verbatim>\<open>player_turn\<close>, from \<^verbatim>\<open>winner = self.check_battle_end()\<close> on.
\<close>

definition player_turn_end :: "battle \<Rightarrow> battle" where
  "player_turn_end b =
     (case check_battle_end b of
        (b1, w) \<Rightarrow>
          (let b2 = (if w = Some ''player'' then
                       (case get_victory_rewards (enemy b1) of
                          (xp, gold_won) \<Rightarrow>
                            b1\<lparr>battle_result :=
                                 Some \<lparr>winner = Some ''player'', xp_gained = xp, gold_gained = gold_won\<rparr>\<rparr>)
                     else b1)
           in b2\<lparr>turn_counter := turn_counter b2 + 1\<rparr>))"

text \<open>
  \<^verbatim>\<open>player_turn\<close> reads the player's choice from the console; \<open>choice\<close> is the line
  read, stripped. \<open>escape_roll\<close> and \<open>crit_roll\<close> are the outcomes of the random draws
  the turn may make. The printed lines are left out.
\<close>

definition player_turn :: "battle \<Rightarrow> string \<Rightarrow> bool \<Rightarrow> bool \<Rightarrow> battle \<times> (error + unit)" where
  "player_turn b choice escape_roll crit_roll =
     (if \<not> combat_active b then (b, Inl CombatNotActiveError)
      else if choice = ''1'' then
        (let damage = strength (character b)
         in (player_turn_end (apply_damage b TargetEnemy damage), Inr ()))
      else if choice = ''2'' then
        (case use_special_ability (character b) (enemy b) crit_roll of
           (c', e', m) \<Rightarrow> (player_turn_end (b\<lparr>character := c', enemy := e'\<rparr>), Inr ()))
      else if choice = ''3'' then
        (case attempt_escape b escape_roll of
           (b1, Inl e) \<Rightarrow> (b1, Inl e)
         | (b1, Inr escaped) \<Rightarrow>
             if escaped then
               (b1\<lparr>battle_result :=
                     Some \<lparr>winner = Some ''none'', xp_gained = 0, gold_gained = 0\<rparr>\<rparr>, Inr ())
             else (player_turn_end b1, Inr ()))
      else (player_turn_end b, Inr ()))"

definition enemy_turn :: "battle \<Rightarrow> battle \<times> (error + unit)" where
  "enemy_turn b =
     (if \<not> combat_active b then (b, Inl CombatNotActiveError)
      else
        (let damage = strength (enemy b);
             b1 = apply_damage b TargetCharacter damage
         in case check_battle_end b1 of
              (b2, w) \<Rightarrow>
                (let b3 = (if w = Some ''enemy'' then
                             b2\<lparr>battle_result :=
                                  Some \<lparr>winner = Some ''enemy'', xp_gained = 0, gold_gained = 0\<rparr>\<rparr>
                           else b2)
                 in (b3\<lparr>turn_counter := turn_counter b3 + 1\<rparr>, Inr ()))))"

section \<open>Callers and sample data\<close>

text \<open>
  A caller that adds the given items one after another and records how each call ended,
  going on after a call that raised.
\<close>

fun add_items :: "character \<Rightarrow> string list \<Rightarrow> character \<times> (error + bool) list" where
  "add_items c [] = (c, [])"
| "add_items c (item_id # rest) =
     (case add_item_to_inventory c item_id of
        (c1, r) \<Rightarrow> (case add_items c1 rest of (c2, rs) \<Rightarrow> (c2, r # rs)))"

text \<open>The character that \<^verbatim>\<open>create_character("Hero", "Warrior")\<close> returns.\<close>

definition novice :: character where
  "novice =
     \<lparr>name = ''Hero'', health = 120, max_health = 120, strength = 15, magic = 5,
      char_class = ''Warrior'', level = 1, experience = 0, gold = 100,
      inventory = [], active_quests = [], completed_quests = [],
      equipped_weapon = Missing, equipped_armor = Missing, extra = Map.empty\<rparr>"

text \<open>The enemy that \<^verbatim>\<open>create_enemy("goblin")\<close> returns.\<close>

definition goblin :: enemy where
  "goblin =
     \<lparr>name = ''Goblin'', health = 50, max_health = 50, strength = 8, magic = 2,
      enemy_type = ''goblin'', xp_reward = 25, gold_reward = 10\<rparr>"

text \<open>
  Item dictionaries as \<^verbatim>\<open>load_items\<close> builds them: the potion is the item that
  \<^verbatim>\<open>create_default_data_files\<close> writes, the others follow the effect formats that
  the docstrings of \<^verbatim>\<open>equip_weapon\<close> and \<^verbatim>\<open>equip_armor\<close> give.
\<close>

definition health_potion :: pydict where
  "health_potion =
     [(''item_id'', PStr ''item_001''), (''name'', PStr ''Health Potion''),
      (''type'', PStr ''consumable''), (''effect'', PStr ''health:20''),
      (''cost'', PInt 10), (''description'', PStr ''Restores 20 health.'')]"

definition iron_sword :: pydict where
  "iron_sword =
     [(''item_id'', PStr ''sword''), (''name'', PStr ''Iron Sword''),
      (''type'', PStr ''weapon''), (''effect'', PStr ''strength:5''),
      (''cost'', PInt 50), (''description'', PStr ''A plain sword.'')]"

definition battle_axe :: pydict where
  "battle_axe =
     [(''item_id'', PStr ''axe''), (''name'', PStr ''Battle Axe''),
      (''type'', PStr ''weapon''), (''effect'', PStr ''strength:8''),
      (''cost'', PInt 80), (''description'', PStr ''A heavy axe.'')]"

definition plate_armor :: pydict where
  "plate_armor =
     [(''item_id'', PStr ''plate''), (''name'', PStr ''Plate Armor''),
      (''type'', PStr ''armor''), (''effect'', PStr ''max_health:10''),
      (''cost'', PInt 60), (''description'', PStr ''Heavy armor.'')]"

text \<open>
  An item with a negative cost. \<^verbatim>\<open>parse_item_block\<close> reads the cost with
  \<^verbatim>\<open>int\<close> and \<^verbatim>\<open>validate_item_data\<close> only asks for an integer, so the item
  loads; neither \<^verbatim>\<open>purchase_item\<close> nor \<^verbatim>\<open>sell_item\<close> looks at the sign.
\<close>

definition cursed_idol :: pydict where
  "cursed_idol =
     [(''item_id'', PStr ''idol''), (''name'', PStr ''Cursed Idol''),
      (''type'', PStr ''consumable''), (''effect'', PStr ''health:1''),
      (''cost'', PInt (- 5)), (''description'', PStr ''Nobody wants it.'')]"

text \<open>The table of all items, from item id to item dictionary.\<close>

definition all_items :: pydict where
  "all_items =
     [(''item_001'', PDict health_potion), (''sword'', PDict iron_sword),
      (''axe'', PDict battle_axe), (''plate'', PDict plate_armor)]"

text \<open>A battle between the two, just started.\<close>

definition first_round :: battle where
  "first_round = fst (start_battle (SimpleBattle novice goblin))"

text \<open>
  The novice after equipping the sword from an inventory that also holds the axe
  (lemma \<open>equip_first_weapon\<close> below).
\<close>

definition armed :: character where
  "armed =
     novice\<lparr>strength := 20, equipped_weapon := Holds (ItemId ''sword''),
            inventory := [ItemId ''axe'']\<rparr>"

text \<open>The health invariant of the data model, for characters and enemies alike.\<close>

definition health_ok :: "'a combatant_scheme \<Rightarrow> bool" where
  "health_ok t = (0 \<le> health t \<and> health t \<le> max_health t)"

section \<open>Properties of character creation and healing\<close>

text \<open>
  Claim C10. For each of the four valid classes, \<open>create_character\<close> returns a character
  whose health equals its maximal health, at level 1, with no experience, 100 gold, and
  empty inventory and quest lists. For every other class string it raises
  \<open>InvalidCharacterClassError\<close>, and no character is returned.
\<close>

theorem create_character_classes:
  "(character_class \<in> {''Warrior'', ''Mage'', ''Rogue'', ''Cleric''} \<longrightarrow>
      (\<exists>c. create_character nm character_class = Inr c \<and> name c = nm \<and>
           char_class c = character_class \<and> health c = max_health c \<and> level c = 1 \<and>
           experience c = 0 \<and> gold c = 100 \<and> inventory c = [] \<and> active_quests c = [] \<and>
           completed_quests c = []))
   \<and> (character_class \<notin> {''Warrior'', ''Mage'', ''Rogue'', ''Cleric''} \<longrightarrow>
        create_character nm character_class = Inl InvalidCharacterClassError)"
  by (auto simp: create_character_def valid_classes_def)

theorem create_character_classes_witness:
  "(\<exists>c. create_character ''Ann'' ''Mage'' = Inr c \<and> name c = ''Ann'' \<and>
        char_class c = ''Mage'' \<and> health c = max_health c \<and> level c = 1 \<and>
        experience c = 0 \<and> gold c = 100 \<and> inventory c = [] \<and> active_quests c = [] \<and>
        completed_quests c = [])
   \<and> create_character ''Bob'' ''Bard'' = Inl InvalidCharacterClassError"
  using create_character_classes [of "''Mage''" "''Ann''"]
        create_character_classes [of "''Bard''" "''Bob''"]
  by simp

text \<open>
  Claim C8. \<open>heal_character\<close> never raises \<open>CharacterDeadError\<close>. On a character with
  health 0 and a positive amount it succeeds, sets health to the smaller of the amount
  and the maximal health, and returns that number; when the maximal health is positive
  the character, dead before the call, is alive after it.
\<close>

theorem heal_character_revives_dead:
  "snd (heal_character c amount) \<noteq> Inl CharacterDeadError \<and>
   (health c = 0 \<and> amount > 0 \<longrightarrow>
      heal_character c amount =
        (c\<lparr>health := min amount (max_health c)\<rparr>, Inr (min amount (max_health c)))) \<and>
   (health c = 0 \<and> amount > 0 \<and> max_health c > 0 \<longrightarrow>
      is_character_dead c \<and> \<not> is_character_dead (fst (heal_character c amount)))"
  by (auto simp: heal_character_def is_character_dead_def Let_def)

theorem heal_character_revives_dead_witness:
  "health (novice\<lparr>health := 0\<rparr>) = 0 \<and> (0::int) < 50 \<and> 0 < max_health (novice\<lparr>health := 0\<rparr>) \<and>
   heal_character (novice\<lparr>health := 0\<rparr>) 50 = (novice\<lparr>health := 50\<rparr>, Inr 50) \<and>
   is_character_dead (novice\<lparr>health := 0\<rparr>) \<and>
   \<not> is_character_dead (fst (heal_character (novice\<lparr>health := 0\<rparr>) 50))"
  using heal_character_revives_dead [of "novice\<lparr>health := 0\<rparr>" 50]
  by (simp add: novice_def is_character_dead_def)

section \<open>Properties of the inventory and the shop\<close>

lemma add_item_room:
  "length (inventory c) < 20 \<Longrightarrow>
   add_item_to_inventory c item_id =
     (c\<lparr>inventory := inventory c @ [ItemId item_id]\<rparr>, Inr True)"
  by (simp add: add_item_to_inventory_def ensure_inventory_def MAX_INVENTORY_SIZE_def)

lemma add_item_full:
  "20 \<le> length (inventory c) \<Longrightarrow> add_item_to_inventory c item_id = (c, Inl InventoryFullError)"
  by (simp add: add_item_to_inventory_def ensure_inventory_def MAX_INVENTORY_SIZE_def)

lemma add_items_room:
  "length (inventory c) + length ids \<le> 20 \<Longrightarrow>
   add_items c ids =
     (c\<lparr>inventory := inventory c @ map ItemId ids\<rparr>, replicate (length ids) (Inr True))"
proof (induction ids arbitrary: c)
  case Nil
  then show ?case by simp
next
  case (Cons i ids)
  then have room: "length (inventory c) < 20" by simp
  from Cons.prems
  have "length (inventory (c\<lparr>inventory := inventory c @ [ItemId i]\<rparr>)) + length ids \<le> 20"
    by simp
  from Cons.IH [OF this] show ?case
    by (simp add: add_item_room [OF room])
qed

lemma add_items_append:
  "add_items c (xs @ ys) =
     (case add_items c xs of
        (c1, rs) \<Rightarrow> (case add_items c1 ys of (c2, rs') \<Rightarrow> (c2, rs @ rs')))"
  by (induction xs arbitrary: c) (auto split: prod.splits)

text \<open>
  Claim C5. Adding an item succeeds while the inventory holds fewer than 20 items and
  raises \<open>InventoryFullError\<close>, changing nothing, once it holds 20. Starting from an
  empty inventory, twenty additions in a row all succeed and the twenty-first raises
  \<open>InventoryFullError\<close>; the inventory is then exactly the twenty items added.
\<close>

theorem inventory_capacity:
  "(length (inventory c) < 20 \<longrightarrow>
      add_item_to_inventory c item_id =
        (c\<lparr>inventory := inventory c @ [ItemId item_id]\<rparr>, Inr True)) \<and>
   (length (inventory c) \<ge> 20 \<longrightarrow>
      add_item_to_inventory c item_id = (c, Inl InventoryFullError)) \<and>
   (inventory c = [] \<and> length ids = 20 \<longrightarrow>
      add_items c (ids @ [item_id]) =
        (c\<lparr>inventory := map ItemId ids\<rparr>,
         replicate 20 (Inr True) @ [Inl InventoryFullError]))"
proof (intro conjI impI)
  assume "length (inventory c) < 20"
  then show "add_item_to_inventory c item_id =
      (c\<lparr>inventory := inventory c @ [ItemId item_id]\<rparr>, Inr True)"
    by (rule add_item_room)
next
  assume "20 \<le> length (inventory c)"
  then show "add_item_to_inventory c item_id = (c, Inl InventoryFullError)"
    by (rule add_item_full)
next
  assume a: "inventory c = [] \<and> length ids = 20"
  then have "add_items c ids = (c\<lparr>inventory := map ItemId ids\<rparr>, replicate 20 (Inr True))"
    using add_items_room [of c ids] by simp
  moreover have "add_item_to_inventory (c\<lparr>inventory := map ItemId ids\<rparr>) item_id =
      (c\<lparr>inventory := map ItemId ids\<rparr>, Inl InventoryFullError)"
    using a by (simp add: add_item_full)
  ultimately show "add_items c (ids @ [item_id]) =
      (c\<lparr>inventory := map ItemId ids\<rparr>, replicate 20 (Inr True) @ [Inl InventoryFullError])"
    by (simp add: add_items_append)
qed

theorem inventory_capacity_witness:
  "length (inventory novice) < 20 \<and>
   add_item_to_inventory novice ''item_001'' =
     (novice\<lparr>inventory := [ItemId ''item_001'']\<rparr>, Inr True) \<and>
   length (inventory (novice\<lparr>inventory := replicate 20 (ItemId ''item_001'')\<rparr>)) \<ge> 20 \<and>
   add_item_to_inventory (novice\<lparr>inventory := replicate 20 (ItemId ''item_001'')\<rparr>) ''sword'' =
     (novice\<lparr>inventory := replicate 20 (ItemId ''item_001'')\<rparr>, Inl InventoryFullError) \<and>
   inventory novice = [] \<and> length (replicate 20 ''item_001'') = 20 \<and>
   add_items novice (replicate 20 ''item_001'' @ [''sword'']) =
     (novice\<lparr>inventory := replicate 20 (ItemId ''item_001'')\<rparr>,
      replicate 20 (Inr True) @ [Inl InventoryFullError])"
  using inventory_capacity [of novice "''item_001''" "[]"]
        inventory_capacity
          [of "novice\<lparr>inventory := replicate 20 (ItemId ''item_001'')\<rparr>" "''sword''" "[]"]
        inventory_capacity [of novice "''sword''" "replicate 20 ''item_001''"]
  by (simp add: novice_def)

lemma resolve_potion_record:
  "resolve_item_info ''item_001'' health_potion = Inr (PDict health_potion)"
  by (simp add: resolve_item_info_def has_key_def health_potion_def)

lemma resolve_potion_table:
  "resolve_item_info ''item_001'' all_items = Inr (PDict health_potion)"
  by (simp add: resolve_item_info_def has_key_def all_items_def)

lemma potion_cost: "item_cost (PDict health_potion) = Inr 10"
  by (simp add: item_cost_def health_potion_def)

text \<open>
  Claim C9. \<open>purchase_item\<close> compares the gold with the cost before it looks at the
  capacity: with too little gold and a full inventory the error is
  \<open>InsufficientResourcesError\<close>, and \<open>InventoryFullError\<close> is raised only when the
  gold suffices. Whatever exception the call raises, it leaves the character, and so
  its gold and its inventory, as they were.
\<close>

theorem purchase_item_gold_before_capacity:
  "(resolve_item_info item_id item_data = Inr info \<and> item_cost info = Inr cost \<and>
    gold c < cost \<and> length (inventory c) \<ge> 20 \<longrightarrow>
      purchase_item c item_id item_data = (c, Inl InsufficientResourcesError)) \<and>
   (resolve_item_info item_id item_data = Inr info \<and> item_cost info = Inr cost \<and>
    cost \<le> gold c \<and> length (inventory c) \<ge> 20 \<longrightarrow>
      purchase_item c item_id item_data = (c, Inl InventoryFullError)) \<and>
   (snd (purchase_item c item_id item_data) = Inl e \<longrightarrow>
      fst (purchase_item c item_id item_data) = c)"
  by (auto simp: purchase_item_def ensure_inventory_def MAX_INVENTORY_SIZE_def Let_def
           split: sum.splits)

theorem purchase_item_gold_before_capacity_witness:
  "resolve_item_info ''item_001'' health_potion = Inr (PDict health_potion) \<and>
   item_cost (PDict health_potion) = Inr 10 \<and>
   purchase_item (novice\<lparr>gold := 5, inventory := replicate 20 (ItemId ''sword'')\<rparr>) ''item_001''
       health_potion =
     (novice\<lparr>gold := 5, inventory := replicate 20 (ItemId ''sword'')\<rparr>, Inl InsufficientResourcesError) \<and>
   purchase_item (novice\<lparr>inventory := replicate 20 (ItemId ''sword'')\<rparr>) ''item_001'' all_items =
     (novice\<lparr>inventory := replicate 20 (ItemId ''sword'')\<rparr>, Inl InventoryFullError)"
  using purchase_item_gold_before_capacity
          [of "''item_001''" health_potion "PDict health_potion" 10
              "novice\<lparr>gold := 5, inventory := replicate 20 (ItemId ''sword'')\<rparr>"
              InsufficientResourcesError]
        purchase_item_gold_before_capacity
          [of "''item_001''" all_items "PDict health_potion" 10
              "novice\<lparr>inventory := replicate 20 (ItemId ''sword'')\<rparr>" InventoryFullError]
        resolve_potion_record resolve_potion_table potion_cost
  by (simp add: novice_def)

text \<open>
  Claim C7, as the code has it. With gold \<open>g\<close>, room in the inventory and an item of
  cost \<open>cost \<le> g\<close>, buying the item and selling it at once both succeed, the sale pays
  \<open>cost div 2\<close>, the gold ends at \<open>g - cost + cost div 2\<close> and the inventory has its
  former length. The final gold is at most \<open>g\<close> when the cost is not negative; the code
  accepts negative costs too, and the bound holds exactly for the costs from \<open>-1\<close> up.
\<close>

theorem purchase_then_sell:
  assumes "resolve_item_info item_id item_data = Inr info"
    and "item_cost info = Inr cost"
    and "gold c = g"
    and "cost \<le> g"
    and "length (inventory c) < 20"
  shows "\<exists>c1 c2. purchase_item c item_id item_data = (c1, Inr True) \<and>
           sell_item c1 item_id item_data = (c2, Inr (cost div 2)) \<and>
           gold c2 = g - cost + cost div 2 \<and>
           length (inventory c2) = length (inventory c) \<and>
           (0 \<le> cost \<longrightarrow> gold c2 \<le> g) \<and>
           (gold c2 \<le> g) = (- 1 \<le> cost)"
  using assms
  by (auto simp: purchase_item_def sell_item_def ensure_inventory_def MAX_INVENTORY_SIZE_def
        Let_def length_remove1)

theorem purchase_then_sell_witness:
  "\<exists>c1 c2. purchase_item novice ''item_001'' all_items = (c1, Inr True) \<and>
      sell_item c1 ''item_001'' all_items = (c2, Inr 5) \<and>
      gold c2 = 95 \<and> length (inventory c2) = 0 \<and> gold c2 \<le> 100"
proof -
  have g: "gold novice = 100" and l: "length (inventory novice) < 20" and le: "(10::int) \<le> 100"
    by (simp_all add: novice_def)
  from purchase_then_sell [OF resolve_potion_table potion_cost g le l] show ?thesis
    by (simp add: novice_def)
qed

text \<open>
  The bound of the claim as first stated fails for an item of cost \<open>-5\<close>: the novice
  with 100 gold buys it, which adds 5 gold, and sells it for \<open>-5 div 2 = -3\<close>, ending
  with 102 gold and an empty inventory again.
\<close>

theorem purchase_then_sell_counterexample:
  "gold novice = 100 \<and> length (inventory novice) < 20 \<and>
   purchase_item novice ''idol'' cursed_idol =
     (novice\<lparr>gold := 105, inventory := [ItemId ''idol'']\<rparr>, Inr True) \<and>
   sell_item (novice\<lparr>gold := 105, inventory := [ItemId ''idol'']\<rparr>) ''idol'' cursed_idol =
     (novice\<lparr>gold := 102\<rparr>, Inr (- 3)) \<and>
   \<not> gold (fst (sell_item (fst (purchase_item novice ''idol'' cursed_idol)) ''idol''
                  cursed_idol)) \<le> gold novice"
  by (simp add: purchase_item_def sell_item_def ensure_inventory_def MAX_INVENTORY_SIZE_def
        resolve_item_info_def has_key_def item_cost_def cursed_idol_def novice_def Let_def)

section \<open>Properties of dead characters\<close>

text \<open>
  Claim C6. \<open>start_battle\<close> raises \<open>CharacterDeadError\<close> exactly when the character's
  health is at most 0, and \<open>start\<close> is the same function; \<open>gain_experience\<close> raises
  \<open>CharacterDeadError\<close> exactly when the character's health is at most 0. A call that
  raises leaves the battle (and with it the character and the enemy), respectively the
  character, unchanged; a call on a living character does not raise at all.
\<close>

theorem dead_character_rejected:
  "(snd (start_battle b) = Inl CharacterDeadError) = (health (character b) \<le> 0) \<and>
   start b = start_battle b \<and>
   (health (character b) \<le> 0 \<longrightarrow> fst (start_battle b) = b) \<and>
   (0 < health (character b) \<longrightarrow>
      start_battle b =
        (b\<lparr>combat_active := True, turn_counter := 1,
           battle_result := Some \<lparr>winner = None, xp_gained = 0, gold_gained = 0\<rparr>\<rparr>,
         Inr \<lparr>winner = None, xp_gained = 0, gold_gained = 0\<rparr>)) \<and>
   (snd (gain_experience c xp_amount) = Inl CharacterDeadError) = (health c \<le> 0) \<and>
   (health c \<le> 0 \<longrightarrow> fst (gain_experience c xp_amount) = c) \<and>
   (0 < health c \<longrightarrow> (\<exists>r. snd (gain_experience c xp_amount) = Inr r))"
  by (auto simp: start_battle_def start_def is_character_dead_def gain_experience_def Let_def
           split: prod.splits)

theorem dead_character_rejected_witness:
  "health (character (SimpleBattle (novice\<lparr>health := 0\<rparr>) goblin)) \<le> 0 \<and>
   start_battle (SimpleBattle (novice\<lparr>health := 0\<rparr>) goblin) =
     (SimpleBattle (novice\<lparr>health := 0\<rparr>) goblin, Inl CharacterDeadError) \<and>
   start (SimpleBattle (novice\<lparr>health := 0\<rparr>) goblin) =
     (SimpleBattle (novice\<lparr>health := 0\<rparr>) goblin, Inl CharacterDeadError) \<and>
   gain_experience (novice\<lparr>health := 0\<rparr>) 250 = (novice\<lparr>health := 0\<rparr>, Inl CharacterDeadError) \<and>
   0 < health (character (SimpleBattle novice goblin)) \<and>
   snd (start_battle (SimpleBattle novice goblin)) =
     Inr \<lparr>winner = None, xp_gained = 0, gold_gained = 0\<rparr> \<and>
   (\<exists>r. snd (gain_experience novice 250) = Inr r)"
  using dead_character_rejected [of "SimpleBattle (novice\<lparr>health := 0\<rparr>) goblin" "novice\<lparr>health := 0\<rparr>" 250]
        dead_character_rejected [of "SimpleBattle novice goblin" novice 250]
  by (auto simp: novice_def SimpleBattle_def prod_eq_iff)

section \<open>Properties of the level-up cascade\<close>

text \<open>The loop of \<open>gain_experience\<close>, one iteration at a time.\<close>

lemma level_up_loop_step:
  "level c * 100 \<le> experience c \<Longrightarrow> level_up_loop c b = level_up_loop (level_up c) True"
  by (subst level_up_loop.simps) simp

lemma level_up_loop_stop:
  "experience c < level c * 100 \<Longrightarrow> level_up_loop c b = (c, b)"
  by (subst level_up_loop.simps) simp

lemma level_up_loop_closed_form:
  "level_up_loop c b = (c', r) \<Longrightarrow>
     level c \<le> level c' \<and>
     experience c' < level c' * 100 \<and>
     experience c' = experience c - 50 * (level c' * (level c' - 1) - level c * (level c - 1)) \<and>
     max_health c' = max_health c + 10 * (level c' - level c) \<and>
     strength c' = strength c + 2 * (level c' - level c) \<and>
     magic c' = magic c + 2 * (level c' - level c) \<and>
     health c' = (if level c < level c' then max_health c' else health c) \<and>
     r = (b \<or> level c < level c') \<and>
     (level c < level c' \<longrightarrow> 0 \<le> experience c')"
proof (induction c b arbitrary: c' r rule: level_up_loop.induct)
  case (1 c leveled_up)
  show ?case
  proof (cases "level c * 100 \<le> experience c")
    case True
    with "1.prems" have run: "level_up_loop (level_up c) True = (c', r)"
      by (simp add: level_up_loop_step)
    note ih = "1.IH" [OF True run]
    have f: "level (level_up c) = level c + 1" "experience (level_up c) = experience c - level c * 100"
      "max_health (level_up c) = max_health c + 10" "strength (level_up c) = strength c + 2"
      "magic (level_up c) = magic c + 2" "health (level_up c) = max_health c + 10"
      by (simp_all add: level_up_def)
    from ih have lv: "level c + 1 \<le> level c'" by (simp add: f)
    have e0: "level c' = level c + 1 \<longrightarrow> 0 \<le> experience c'"
      using ih True by (auto simp: f algebra_simps)
    from ih lv e0 show ?thesis
      by (auto simp: f algebra_simps)
  next
    case False
    with "1.prems" have "c' = c" "r = leveled_up"
      by (simp_all add: level_up_loop_stop)
    with False show ?thesis by simp
  qed
qed

lemma level_up_loop_frame:
  "level_up_loop c b = (c', r) \<Longrightarrow>
     c' = c\<lparr>experience := experience c', level := level c', max_health := max_health c',
            strength := strength c', magic := magic c', health := health c'\<rparr>"
proof (induction c b arbitrary: c' r rule: level_up_loop.induct)
  case (1 c leveled_up)
  show ?case
  proof (cases "level c * 100 \<le> experience c")
    case True
    with "1.prems" have run: "level_up_loop (level_up c) True = (c', r)"
      by (simp add: level_up_loop_step)
    from "1.IH" [OF True run]
    have "c' = (level_up c)\<lparr>experience := experience c', level := level c', max_health := max_health c',
            strength := strength c', magic := magic c', health := health c'\<rparr>" by simp
    then show ?thesis by (simp add: level_up_def)
  next
    case False
    with "1.prems" have "c' = c" by (simp add: level_up_loop_stop)
    then show ?thesis by simp
  qed
qed


lemma gain_experience_250:
  assumes "0 < health c" and "level c = 1" and "experience c = 0"
  shows "gain_experience c 250 =
     (c\<lparr>experience := 150, level := 2, max_health := max_health c + 10,
        strength := strength c + 2, magic := magic c + 2, health := max_health c + 10\<rparr>,
      Inr True)"
proof -
  let ?c0 = "c\<lparr>experience := experience c + 250\<rparr>"
  have "level_up_loop ?c0 False = level_up_loop (level_up ?c0) True"
    using assms by (intro level_up_loop_step) simp
  also have "\<dots> = (level_up ?c0, True)"
    using assms by (intro level_up_loop_stop) (simp add: level_up_def)
  finally show ?thesis
    using assms by (simp add: gain_experience_def level_up_def)
qed

text \<open>
  Claim C3, as the code has it. A living character at level 1 with no experience who is
  granted 250 points ends at level 2 with 150 points, not at level 3 with 50: only the
  threshold 100 of level 1 is consumed, since 150 is below the threshold 200 of level 2;
  the call returns true. In general the call on a living character returns, and with
  \<open>k\<close> the number of levels gained: the thresholds \<open>100 * l\<close> of the levels passed have
  been subtracted from the experience, the experience left is below the threshold of the
  level reached (and not negative when a level was gained), \<open>max_health\<close> has grown by
  \<open>10 * k\<close>, \<open>strength\<close> and \<open>magic\<close> by \<open>2 * k\<close>, health is the new \<open>max_health\<close>
  when a level was gained and untouched otherwise, the returned flag says whether a
  level was gained, and no other key has changed.
\<close>

theorem gain_experience_cascade:
  assumes "0 < health c"
  shows "\<exists>c' r. gain_experience c xp_amount = (c', Inr r) \<and>
      (level c = 1 \<and> experience c = 0 \<and> xp_amount = 250 \<longrightarrow>
         level c' = 2 \<and> experience c' = 150 \<and> r) \<and>
      level c \<le> level c' \<and>
      experience c' < level c' * 100 \<and>
      experience c' =
        experience c + xp_amount - 50 * (level c' * (level c' - 1) - level c * (level c - 1)) \<and>
      max_health c' = max_health c + 10 * (level c' - level c) \<and>
      strength c' = strength c + 2 * (level c' - level c) \<and>
      magic c' = magic c + 2 * (level c' - level c) \<and>
      health c' = (if level c < level c' then max_health c' else health c) \<and>
      r = (level c < level c') \<and>
      (level c < level c' \<longrightarrow> 0 \<le> experience c') \<and>
      c' = c\<lparr>experience := experience c', level := level c', max_health := max_health c',
             strength := strength c', magic := magic c', health := health c'\<rparr>"
proof -
  let ?c0 = "c\<lparr>experience := experience c + xp_amount\<rparr>"
  obtain c' r where run: "level_up_loop ?c0 False = (c', r)"
    by (cases "level_up_loop ?c0 False") auto
  with assms have res: "gain_experience c xp_amount = (c', Inr r)"
    by (simp add: gain_experience_def)
  have special: "level c = 1 \<and> experience c = 0 \<and> xp_amount = 250 \<longrightarrow>
         level c' = 2 \<and> experience c' = 150 \<and> r"
  proof
    assume a: "level c = 1 \<and> experience c = 0 \<and> xp_amount = 250"
    with gain_experience_250 [OF assms] res
    have "(c', Inr r :: error + bool) =
     (c\<lparr>experience := 150, level := 2, max_health := max_health c + 10,
        strength := strength c + 2, magic := magic c + 2, health := max_health c + 10\<rparr>,
      Inr True)" by simp
    then show "level c' = 2 \<and> experience c' = 150 \<and> r" by simp
  qed
  from level_up_loop_frame [OF run]
  have frame: "c' = c\<lparr>experience := experience c', level := level c', max_health := max_health c',
             strength := strength c', magic := magic c', health := health c'\<rparr>"
    by simp
  have start: "level ?c0 = level c" "experience ?c0 = experience c + xp_amount"
    "max_health ?c0 = max_health c" "strength ?c0 = strength c" "magic ?c0 = magic c"
    "health ?c0 = health c"
    by simp_all
  have closed: "level c \<le> level c' \<and>
      experience c' < level c' * 100 \<and>
      experience c' =
        experience c + xp_amount - 50 * (level c' * (level c' - 1) - level c * (level c - 1)) \<and>
      max_health c' = max_health c + 10 * (level c' - level c) \<and>
      strength c' = strength c + 2 * (level c' - level c) \<and>
      magic c' = magic c + 2 * (level c' - level c) \<and>
      health c' = (if level c < level c' then max_health c' else health c) \<and>
      r = (False \<or> level c < level c') \<and>
      (level c < level c' \<longrightarrow> 0 \<le> experience c')"
    using level_up_loop_closed_form [OF run] unfolding start by blast
  then have flag: "r = (level c < level c')" by blast
  from closed flag res special frame show ?thesis
    by blast
qed

theorem gain_experience_cascade_witness:
  "0 < health novice \<and>
   (\<exists>c' r. gain_experience novice 250 = (c', Inr r) \<and> level c' = 2 \<and> experience c' = 150 \<and> r \<and>
      max_health c' = 130 \<and> strength c' = 17 \<and> magic c' = 7 \<and> health c' = 130)"
proof -
  have h: "0 < health novice" by (simp add: novice_def)
  from gain_experience_cascade [OF h, of 250] obtain c' r where
    "gain_experience novice 250 = (c', Inr r)"
    "level novice = 1 \<and> experience novice = 0 \<and> (250::int) = 250 \<longrightarrow>
         level c' = 2 \<and> experience c' = 150 \<and> r"
    "max_health c' = max_health novice + 10 * (level c' - level novice)"
    "strength c' = strength novice + 2 * (level c' - level novice)"
    "magic c' = magic novice + 2 * (level c' - level novice)"
    "health c' = (if level novice < level c' then max_health c' else health novice)"
    by blast
  with h show ?thesis by (auto simp: novice_def)
qed

theorem gain_experience_250_counterexample:
  "\<not> (level (fst (gain_experience novice 250)) = 3 \<and>
      experience (fst (gain_experience novice 250)) = 50)"
proof -
  have "gain_experience novice 250 =
     (novice\<lparr>experience := 150, level := 2, max_health := max_health novice + 10,
        strength := strength novice + 2, magic := magic novice + 2,
        health := max_health novice + 10\<rparr>, Inr True)"
    by (rule gain_experience_250) (simp_all add: novice_def)
  then show ?thesis by simp
qed

section \<open>Properties of combat damage\<close>

text \<open>\<open>calculate_damage\<close> itself computes the documented formula.\<close>

lemma calculate_damage_formula:
  "calculate_damage attacker defender = max 1 (strength attacker - strength defender div 4)"
  by (simp add: calculate_damage_def Let_def max_def)

text \<open>
  The two turns do not call it: the basic attack of the player takes the character's
  strength from the enemy's health, and the enemy's attack takes the enemy's strength
  from the character's health.
\<close>

lemma player_turn_basic_attack:
  "combat_active b \<Longrightarrow>
   enemy (fst (player_turn b ''1'' escape_roll crit_roll)) =
     damaged (enemy b) (strength (character b))"
  by (simp add: player_turn_def player_turn_end_def apply_damage_def check_battle_end_def
        get_victory_rewards_def Let_def split: prod.splits)

lemma enemy_turn_attack:
  "combat_active b \<Longrightarrow>
   character (fst (enemy_turn b)) = damaged (character b) (strength (enemy b))"
  by (simp add: enemy_turn_def apply_damage_def check_battle_end_def Let_def split: prod.splits)

text \<open>
  Claim C1, at a first round between the novice warrior (strength 15) and a goblin
  (strength 8, health 50). \<open>calculate_damage\<close> gives 13 for the warrior's attack, and
  the basic attack of \<open>player_turn\<close> takes 15, leaving the goblin at 35;
  \<open>calculate_damage\<close> gives 5 for the goblin's attack, and \<open>enemy_turn\<close> takes 8,
  leaving the warrior at 112 of 120.
\<close>

theorem basic_attack_ignores_defender:
  "combat_active first_round \<and>
   calculate_damage (character first_round) (enemy first_round) = 13 \<and>
   health (enemy first_round) = 50 \<and>
   health (enemy (fst (player_turn first_round ''1'' False False))) = 35 \<and>
   calculate_damage (enemy first_round) (character first_round) = 5 \<and>
   health (character first_round) = 120 \<and>
   health (character (fst (enemy_turn first_round))) = 112"
  by (simp add: first_round_def start_battle_def SimpleBattle_def is_character_dead_def
        novice_def goblin_def calculate_damage_def player_turn_def player_turn_end_def
        enemy_turn_def apply_damage_def damaged_def check_battle_end_def
        get_victory_rewards_def Let_def)

section \<open>Properties of the health invariant\<close>

text \<open>
  Damage that is not negative, healing, the cleric's ability and an item effect that
  adds a non-negative amount to health all keep health between 0 and the maximum.
\<close>

lemma damaged_health_ok: "0 \<le> damage \<Longrightarrow> health_ok t \<Longrightarrow> health_ok (damaged t damage)"
  by (simp add: health_ok_def damaged_def Let_def)

lemma heal_character_health_ok: "health_ok c \<Longrightarrow> health_ok (fst (heal_character c amount))"
  by (simp add: health_ok_def heal_character_def Let_def)

lemma cleric_heal_health_ok: "health_ok c \<Longrightarrow> health_ok (fst (cleric_heal c))"
  by (simp add: health_ok_def cleric_heal_def Let_def)

lemma apply_stat_effect_health_ok:
  "0 \<le> val \<Longrightarrow> health_ok c \<Longrightarrow> health_ok (fst (apply_stat_effect c ''health'' val))"
  by (simp add: health_ok_def apply_stat_effect_def Let_def)

text \<open>\<open>apply_stat_effect\<close> has no lower bound for health.\<close>

lemma apply_stat_effect_health_below_zero:
  "health_ok novice \<and> health (fst (apply_stat_effect novice ''health'' (- 200))) = - 80"
  by (simp add: health_ok_def apply_stat_effect_def novice_def Let_def)

lemma plate_effect: "parse_item_effect (PStr ''max_health:10'') = Inr (''max_health'', 10)"
  by (simp add: parse_item_effect_def py_int_def py_strip_def py_isspace_def py_decimal_def
        digit_val_def Let_def)

text \<open>
  Claim C2, at the novice carrying plate armor (effect \<^verbatim>\<open>max_health:10\<close>). Equipping
  the armor raises the maximum to 130 and healing by 10 fills health up to 130; the
  invariant holds after both. Unequipping the armor then succeeds and lowers the maximum
  to 120 while health stays at 130, so the invariant is broken.
\<close>

theorem unequip_armor_leaves_health_above_max:
  "(case equip_armor (novice\<lparr>inventory := [ItemId ''plate'']\<rparr>) ''plate'' all_items of
      (c1, r1) \<Rightarrow>
        health_ok c1 \<and> health c1 = 120 \<and> max_health c1 = 130 \<and>
        (case heal_character c1 10 of
           (c2, r2) \<Rightarrow>
             health_ok c2 \<and> health c2 = 130 \<and> max_health c2 = 130 \<and>
             (case unequip_armor c2 all_items of
                (c3, r3) \<Rightarrow>
                  r3 = Inr (Some (ItemId ''plate'')) \<and> health c3 = 130 \<and> max_health c3 = 120 \<and>
                  \<not> health_ok c3)))"
  by (simp add: equip_armor_def unequip_armor_def heal_character_def ensure_inventory_def
        resolve_item_info_def has_key_def all_items_def plate_armor_def return_old_item_def
        apply_item_effect_def plate_effect apply_stat_effect_def item_label_def
        get_inventory_space_remaining_def MAX_INVENTORY_SIZE_def health_ok_def novice_def Let_def)

section \<open>Properties of swapping weapons\<close>

lemma sword_effect: "parse_item_effect (PStr ''strength:5'') = Inr (''strength'', 5)"
  by (simp add: parse_item_effect_def py_int_def py_strip_def py_isspace_def py_decimal_def
        digit_val_def Let_def)

lemma axe_effect: "parse_item_effect (PStr ''strength:8'') = Inr (''strength'', 8)"
  by (simp add: parse_item_effect_def py_int_def py_strip_def py_isspace_def py_decimal_def
        digit_val_def Let_def)

lemma equip_first_weapon:
  "equip_weapon (novice\<lparr>inventory := [ItemId ''sword'', ItemId ''axe'']\<rparr>) ''sword'' iron_sword =
     (armed, Inr (''Hero'', PStr ''Iron Sword''))"
  by (simp add: equip_weapon_def ensure_inventory_def resolve_item_info_def has_key_def
        iron_sword_def return_old_item_def apply_item_effect_def sword_effect
        apply_stat_effect_def item_label_def armed_def novice_def Let_def)

text \<open>
  With the table of all items, where the old weapon's entry is found, a strength bonus
  \<open>m\<close> of the old weapon is taken back before the bonus \<open>n\<close> of the new one is added.
\<close>

lemma equip_weapon_swap_table:
  assumes "ItemId item_id \<in> set (inventory c)"
    and "\<not> has_key item_data ''type''"
    and "map_of item_data item_id = Some (PDict info)"
    and "map_of info ''type'' = Some (PStr ''weapon'')"
    and "map_of info ''effect'' = Some new_effect"
    and "parse_item_effect new_effect = Inr (''strength'', n)"
    and "equipped_weapon c = Holds (ItemId old_id)" and "old_id \<noteq> []"
    and "map_of item_data old_id = Some (PDict old_info)"
    and "map_of old_info ''effect'' = Some old_effect"
    and "parse_item_effect old_effect = Inr (''strength'', m)"
  shows "equip_weapon c item_id item_data =
     (c\<lparr>strength := strength c - m + n, equipped_weapon := Holds (ItemId item_id),
        inventory := remove1 (ItemId item_id) (inventory c @ [ItemId old_id])\<rparr>,
      Inr (name c, item_label info item_id))"
  using assms
  by (simp add: equip_weapon_def ensure_inventory_def resolve_item_info_def
        return_old_item_def apply_item_effect_def apply_stat_effect_def Let_def)

text \<open>
  With the new weapon's own dictionary, which holds no dictionary under the old
  weapon's id, nothing is taken back: the new bonus is added on top of the old one.
\<close>

lemma equip_weapon_swap_record:
  assumes "ItemId item_id \<in> set (inventory c)"
    and "map_of info ''type'' = Some (PStr ''weapon'')"
    and "map_of info ''effect'' = Some new_effect"
    and "parse_item_effect new_effect = Inr (''strength'', n)"
    and "equipped_weapon c = Holds (ItemId old_id)" and "old_id \<noteq> []"
    and "(case map_of info old_id of Some (PDict d) \<Rightarrow> False | _ \<Rightarrow> True)"
  shows "equip_weapon c item_id info =
     (c\<lparr>strength := strength c + n, equipped_weapon := Holds (ItemId item_id),
        inventory := remove1 (ItemId item_id) (inventory c @ [ItemId old_id])\<rparr>,
      Inr (name c, item_label info item_id))"
  using assms
  by (auto simp: equip_weapon_def ensure_inventory_def resolve_item_info_def has_key_def
        return_old_item_def apply_item_effect_def apply_stat_effect_def Let_def
        split: option.splits pyval.splits)

text \<open>Either way the inventory keeps its length.\<close>

lemma swap_keeps_length:
  "item_id \<in> set (inventory c) \<Longrightarrow>
   length (remove1 item_id (inventory c @ [old])) = length (inventory c)"
  by (simp add: length_remove1)

text \<open>
  Claim C4, at the novice who has the sword (\<^verbatim>\<open>strength:5\<close>) equipped, strength 20,
  and the axe (\<^verbatim>\<open>strength:8\<close>) in the inventory. Called with the axe's own dictionary,
  \<open>equip_weapon\<close> returns the sword to the inventory and equips the axe, but the
  strength becomes 28: the sword's bonus stays. Called with the table of all items, the
  same swap ends at strength 23.
\<close>

theorem equip_weapon_record_keeps_old_bonus:
  "equip_weapon armed ''axe'' battle_axe =
     (armed\<lparr>strength := 28, equipped_weapon := Holds (ItemId ''axe''),
            inventory := [ItemId ''sword'']\<rparr>,
      Inr (''Hero'', PStr ''Battle Axe'')) \<and>
   equip_weapon armed ''axe'' all_items =
     (armed\<lparr>strength := 23, equipped_weapon := Holds (ItemId ''axe''),
            inventory := [ItemId ''sword'']\<rparr>,
      Inr (''Hero'', PStr ''Battle Axe''))"
  by (simp add: equip_weapon_def ensure_inventory_def resolve_item_info_def has_key_def
        all_items_def iron_sword_def battle_axe_def return_old_item_def apply_item_effect_def
        sword_effect axe_effect apply_stat_effect_def item_label_def armed_def novice_def Let_def)

end
